theory Spec2Isabelle
  imports Main "HOL-Library.Multiset"
begin

section \<open>The k0s runtime of sealer (package k0s, runtime.go)\<close>

text \<open>
  A shallow embedding of the k0s runtime driver. Go's \<^verbatim>\<open>error\<close> is an optional message
  (\<open>None\<close> is \<^verbatim>\<open>nil\<close>), a \<^verbatim>\<open>net.IP\<close> is an optional address kept in its textual form
  (\<open>None\<close> is the nil slice), and a pair of Go results is a pair. The cluster pointer of
  a runtime is taken to be non-nil; the registry configuration pointer may be nil.
\<close>

subsection \<open>Values\<close>

type_synonym error = string

type_synonym IP = "string option"

text \<open>\<^verbatim>\<open>net.IP.String\<close>: the nil address prints as \<^verbatim>\<open><nil>\<close>.\<close>

definition IP_String :: "IP \<Rightarrow> string" where
  "IP_String ip = (case ip of None \<Rightarrow> ''<nil>'' | Some s \<Rightarrow> s)"

text \<open>How \<^verbatim>\<open>fmt\<close> prints a \<^verbatim>\<open>[]net.IP\<close> under \<^verbatim>\<open>%s\<close>: the elements between brackets,
  separated by one space.\<close>

fun join_space :: "string list \<Rightarrow> string" where
  "join_space [] = []"
| "join_space [s] = s"
| "join_space (s # t # ss) = s @ '' '' @ join_space (t # ss)"

definition IPList_String :: "IP list \<Rightarrow> string" where
  "IPList_String ips = ''['' @ join_space (map IP_String ips) @ '']''"

text \<open>
  \<^verbatim>\<open>fmt.Sprintf\<close>, for the two verbs this file uses (\<^verbatim>\<open>%s\<close> and \<^verbatim>\<open>%v\<close>) on operands
  that are already text, with as many operands as verbs, as at every call below.
  \<^verbatim>\<open>fmt.Errorf\<close> builds the error that carries the same text.
\<close>

fun Sprintf :: "string \<Rightarrow> string list \<Rightarrow> string" where
  "Sprintf (c # d # fs) (a # args) =
     (if c = CHR ''%'' \<and> (d = CHR ''s'' \<or> d = CHR ''v'') then a @ Sprintf fs args
      else c # Sprintf (d # fs) (a # args))"
| "Sprintf fs args = fs"

definition Errorf :: "string \<Rightarrow> string list \<Rightarrow> error" where
  "Errorf f args = Sprintf f args"

text \<open>
  \<^verbatim>\<open>strings.Split(s, sep)\<close> for a separator of one byte, which is how \<^verbatim>\<open>getKubeVersion\<close>
  calls it: the pieces of \<open>s\<close> between the occurrences of \<open>sep\<close>.
\<close>

fun Split :: "string \<Rightarrow> char \<Rightarrow> string list" where
  "Split [] sep = [[]]"
| "Split (c # cs) sep =
     (if c = sep then [] # Split cs sep
      else (case Split cs sep of [] \<Rightarrow> [[c]] | w # ws \<Rightarrow> (c # w) # ws))"

text \<open>A Go call either returns or panics (a nil dereference, an index out of range).\<close>

datatype 'a outcome = Returns 'a | Panics

subsection \<open>Constants, cluster, registry configuration\<close>

text \<open>
  The package constants are declared in a file that is not part of these sources; they
  are parameters of the model.
\<close>

record Consts =
  ControllerRole :: string
  WorkerRole :: string
  DefaultK0sControllerJoin :: string
  DefaultK0sWorkerJoin :: string
  DefaultK0sConfigPath :: string
  ExternalCRI :: string
  RuntimeFlag :: string
  VersionCmd :: string

text \<open>
  \<^verbatim>\<open>v2.Cluster\<close>, as far as the runtime reads it: the name, \<^verbatim>\<open>Spec.Hosts\<close> (whose
  entries the runtime never inspects, hence the type parameter) and the ordered master
  addresses.
\<close>

record 'h Cluster =
  Name :: string
  Hosts :: "'h list"
  MasterIPs :: "IP list"

text \<open>
  Modelled from the spec: \<^verbatim>\<open>GetMaster0IP\<close> belongs to the cluster type, which is not
  part of these sources. "master0: first master in the ordered master list"; there is
  no master0 address (nil) when the list is empty.
\<close>

definition GetMaster0IP :: "'h Cluster \<Rightarrow> IP" where
  "GetMaster0IP c = (case MasterIPs c of [] \<Rightarrow> None | ip # _ \<Rightarrow> ip)"

text \<open>\<^verbatim>\<open>registry.Config\<close>: the two fields \<^verbatim>\<open>Domain\<close> and \<^verbatim>\<open>Port\<close> that the runtime prints.\<close>

record Config =
  Domain_reg :: string
  Port_reg :: string

record 'h Runtime =
  cluster :: "'h Cluster"
  Vlog :: int
  RegConfig :: "Config option"

text \<open>\<^verbatim>\<open>runtime.Metadata\<close>: the fields the runtime assigns; both are empty in a fresh value.\<close>

record Metadata =
  Version :: string
  ClusterRuntime :: string

subsection \<open>Effects\<close>

text \<open>
  What an operation does outside the process: remote copies, pings and commands, a log
  line, a pause. A goroutine started with \<^verbatim>\<open>eg.Go\<close> is a task: the error it returns and
  the effects it has when it runs. An operation returns its Go result, the effects that
  are certain to have happened when it returns, and the tasks it started and did not
  wait for, which may still be running then.
\<close>

datatype action =
    CopyTo IP string string
  | PingTo IP
  | CmdOn IP string
  | Sleep int
  | Log string

type_synonym task = "error option \<times> action list"

record 'a ret =
  val :: 'a
  effects :: "action list"
  unjoined :: "task list"

text \<open>An SSH client, made for the host whose credentials it carries.\<close>

datatype SSH = SSH IP

text \<open>
  The collaborators outside these sources, as parameters: the SSH client constructor
  and the answers of the remote hosts (the answer to a ping may change from one attempt
  to the next, so it depends on the attempt's number), the registry configuration
  reader, the mount directory layout, and whether the logger is at debug level.
\<close>

record 'h Env =
  NewStdoutSSHClient :: "IP \<Rightarrow> 'h Cluster \<Rightarrow> error + SSH"
  Copy :: "SSH \<Rightarrow> IP \<Rightarrow> string \<Rightarrow> string \<Rightarrow> error option"
  Ping :: "SSH \<Rightarrow> IP \<Rightarrow> nat \<Rightarrow> error option"
  Cmd :: "SSH \<Rightarrow> IP \<Rightarrow> string \<Rightarrow> string \<times> error option"
  GetConfig :: "string \<Rightarrow> IP \<Rightarrow> Config option"
  DefaultMountClusterImageDir :: "string \<Rightarrow> string"
  DebugLevel :: bool

subsection \<open>The error group\<close>

text \<open>
  \<^verbatim>\<open>errgroup.Group\<close>: \<open>Go\<close> starts a task; \<open>Wait\<close> blocks until every started task has
  returned and gives the first non-nil error in the order in which the tasks returned.
  That order is not fixed by the program: it is the schedule \<open>order\<close>, a permutation of
  the positions of the started tasks. The group's context is discarded by every caller
  here, so no task is cancelled.
\<close>

definition Go :: "task list \<Rightarrow> task \<Rightarrow> task list" where
  "Go eg f = eg @ [f]"

fun first_error :: "error option list \<Rightarrow> error option" where
  "first_error [] = None"
| "first_error (None # es) = first_error es"
| "first_error (Some e # es) = Some e"

definition Wait :: "nat list \<Rightarrow> task list \<Rightarrow> error option \<times> action list" where
  "Wait order eg =
     (let finished = map (\<lambda>i. eg ! i) order
      in (first_error (map fst finished), concat (map snd finished)))"

definition schedule :: "nat list \<Rightarrow> 'a list \<Rightarrow> bool" where
  "schedule order xs = (mset order = mset [0..<length xs])"

subsection \<open>Construction\<close>

definition getImageMountDir :: "'h Env \<Rightarrow> 'h Runtime \<Rightarrow> string" where
  "getImageMountDir env k = DefaultMountClusterImageDir env (Name (cluster k))"

definition getHostSSHClient :: "'h Env \<Rightarrow> 'h Runtime \<Rightarrow> IP \<Rightarrow> error + SSH" where
  "getHostSSHClient env k hostIP = NewStdoutSSHClient env hostIP (cluster k)"

definition checkList :: "'h Runtime \<Rightarrow> error option" where
  "checkList k =
     (if length (Hosts (cluster k)) = 0 then Some (Errorf ''hosts spec cannot be empty'' [])
      else if GetMaster0IP (cluster k) = None then Some (Errorf ''master0 IP cannot be empty'' [])
      else None)"

definition setDebugLevel :: "'h Env \<Rightarrow> 'h Runtime \<Rightarrow> 'h Runtime" where
  "setDebugLevel env k = (if DebugLevel env then k\<lparr>Vlog := 6\<rparr> else k)"

text \<open>The installer is the first component: \<open>None\<close> is the nil interface value.\<close>

definition newK0sRuntime ::
  "'h Env \<Rightarrow> 'h Cluster \<Rightarrow> ('h Runtime option \<times> error option) ret" where
  "newK0sRuntime env c =
     (let k = \<lparr>cluster = c, Vlog = 0, RegConfig = None\<rparr>;
          k = k\<lparr>RegConfig := GetConfig env (getImageMountDir env k) (GetMaster0IP (cluster k))\<rparr>
      in case checkList k of
           Some err \<Rightarrow> \<lparr>val = (None, Some err), effects = [], unjoined = []\<rparr>
         | None \<Rightarrow>
             (let k = setDebugLevel env k
              in \<lparr>val = (None, None), effects = [], unjoined = []\<rparr>))"

definition NewK0sRuntime ::
  "'h Env \<Rightarrow> 'h Cluster \<Rightarrow> ('h Runtime option \<times> error option) ret" where
  "NewK0sRuntime env c = newK0sRuntime env c"

subsection \<open>Fan-out over hosts\<close>

definition sendFile :: "'h Env \<Rightarrow> 'h Runtime \<Rightarrow> string \<Rightarrow> string \<Rightarrow> IP \<Rightarrow> task" where
  "sendFile env k src dst node =
     (case getHostSSHClient env k node of
        Inl err \<Rightarrow> (Some (Errorf ''failed to send file: %v'' [err]), [])
      | Inr sshClient \<Rightarrow>
          (case Copy env sshClient node src dst of
             Some err \<Rightarrow> (Some (Errorf ''failed to send file: %v'' [err]), [CopyTo node src dst])
           | None \<Rightarrow> (None, [CopyTo node src dst])))"

definition sendFileToHosts ::
  "'h Env \<Rightarrow> 'h Runtime \<Rightarrow> nat list \<Rightarrow> IP list \<Rightarrow> string \<Rightarrow> string \<Rightarrow> error option ret" where
  "sendFileToHosts env k order Hosts' src dst =
     (let eg = foldl (\<lambda>eg node. Go eg (sendFile env k src dst node)) [] Hosts'
      in case Wait order eg of (err, done) \<Rightarrow> \<lparr>val = err, effects = done, unjoined = []\<rparr>)"

definition after :: "action list \<Rightarrow> task \<Rightarrow> task" where
  "after done t = (fst t, done @ snd t)"

function waitLoop :: "'h Env \<Rightarrow> 'h Runtime \<Rightarrow> IP \<Rightarrow> int \<Rightarrow> int \<Rightarrow> task" where
  "waitLoop env k host tryTimes i =
     (if i < tryTimes then
        (case getHostSSHClient env k host of
           Inl err \<Rightarrow> (Some err, [])
         | Inr sshClient \<Rightarrow>
             (if Ping env sshClient host (nat i) = None then (None, [PingTo host])
              else after [PingTo host, Sleep i] (waitLoop env k host tryTimes (i + 1))))
      else
        (Some (Errorf
           ''wait for [%s] ssh ready timeout, ensure that the IP address or password is correct''
           [IP_String host]), []))"
  by pat_completeness auto
termination
  by (relation "measure (\<lambda>(env, k, host, tryTimes, i). nat (tryTimes - i))") auto

definition waitTask :: "'h Env \<Rightarrow> 'h Runtime \<Rightarrow> int \<Rightarrow> IP \<Rightarrow> task" where
  "waitTask env k tryTimes host = waitLoop env k host tryTimes 0"

definition WaitSSHReady ::
  "'h Env \<Rightarrow> 'h Runtime \<Rightarrow> nat list \<Rightarrow> int \<Rightarrow> IP list \<Rightarrow> error option ret" where
  "WaitSSHReady env k order tryTimes hosts =
     (let eg = foldl (\<lambda>eg h. Go eg (waitTask env k tryTimes h)) [] hosts
      in case Wait order eg of (err, done) \<Rightarrow> \<lparr>val = err, effects = done, unjoined = []\<rparr>)"

subsection \<open>Join tokens and join commands\<close>

text \<open>The \<^verbatim>\<open>switch\<close> of \<^verbatim>\<open>CopyJoinToken\<close> that chooses \<^verbatim>\<open>joinCertPath\<close>.\<close>

definition joinCertPath :: "Consts \<Rightarrow> string \<Rightarrow> string" where
  "joinCertPath K role =
     (if role = ControllerRole K then DefaultK0sControllerJoin K
      else if role = WorkerRole K then DefaultK0sWorkerJoin K
      else DefaultK0sWorkerJoin K)"

definition copyToken :: "'h Env \<Rightarrow> SSH \<Rightarrow> string \<Rightarrow> IP \<Rightarrow> task" where
  "copyToken env ssh path host = (Copy env ssh host path path, [CopyTo host path path])"

definition CopyJoinToken ::
  "Consts \<Rightarrow> 'h Env \<Rightarrow> 'h Runtime \<Rightarrow> string \<Rightarrow> IP list \<Rightarrow> error option ret" where
  "CopyJoinToken K env k role hosts =
     (case getHostSSHClient env k (GetMaster0IP (cluster k)) of
        Inl err \<Rightarrow> \<lparr>val = Some err, effects = [], unjoined = []\<rparr>
      | Inr ssh \<Rightarrow>
          (let eg = foldl (\<lambda>eg host. Go eg (copyToken env ssh (joinCertPath K role) host)) [] hosts
           in \<lparr>val = None, effects = [], unjoined = eg\<rparr>))"

text \<open>The result is the command slice; \<open>None\<close> is the nil slice.\<close>

definition JoinCommand :: "Consts \<Rightarrow> 'h Runtime \<Rightarrow> string \<Rightarrow> string list option outcome" where
  \<open>JoinCommand K k role =
     (case RegConfig k of
        None \<Rightarrow> Panics
      | Some reg \<Rightarrow>
          (let cmds =
             [ControllerRole K \<mapsto>
                [''mkdir -r /etc/k0s'',
                 Sprintf ''k0s config create > %s'' [DefaultK0sConfigPath K],
                 Sprintf (''sed -i '/  images/ a'' @ [CHR 0x5C] @ ''    repository: "%s:%s"' %s'')
                   [Domain_reg reg, Port_reg reg, DefaultK0sConfigPath K],
                 Sprintf ''k0s install controller --token-file %s -c %s --cri-socket %s''
                   [DefaultK0sControllerJoin K, DefaultK0sConfigPath K, ExternalCRI K],
                 ''k0s start''],
              WorkerRole K \<mapsto>
                [Sprintf ''k0s install worker --cri-socket %s --token-file %s''
                   [ExternalCRI K, DefaultK0sWorkerJoin K],
                 ''k0s start'']]
           in case cmds role of None \<Rightarrow> Returns None | Some v \<Rightarrow> Returns (Some v)))\<close>

subsection \<open>Version and metadata\<close>

definition getKubeVersion ::
  "Consts \<Rightarrow> 'h Env \<Rightarrow> 'h Runtime \<Rightarrow> (string \<times> error option) outcome ret" where
  "getKubeVersion K env k =
     (case getHostSSHClient env k (GetMaster0IP (cluster k)) of
        Inl err \<Rightarrow> \<lparr>val = Returns ('''', Some err), effects = [], unjoined = []\<rparr>
      | Inr ssh \<Rightarrow>
          (let done = [CmdOn (GetMaster0IP (cluster k)) (VersionCmd K)]
           in case Cmd env ssh (GetMaster0IP (cluster k)) (VersionCmd K) of
                (bytes, Some err) \<Rightarrow>
                  \<lparr>val = Returns ('''', Some err), effects = done, unjoined = []\<rparr>
              | (bytes, None) \<Rightarrow>
                  (case Split bytes (CHR ''+'') of
                     [] \<Rightarrow> \<lparr>val = Panics, effects = done, unjoined = []\<rparr>
                   | v # _ \<Rightarrow> \<lparr>val = Returns (v, None), effects = done, unjoined = []\<rparr>)))"

definition getClusterMetadata ::
  "Consts \<Rightarrow> 'h Env \<Rightarrow> 'h Runtime \<Rightarrow> (Metadata \<times> error option) outcome ret" where
  "getClusterMetadata K env k =
     (let metadata = \<lparr>Version = '''', ClusterRuntime = ''''\<rparr>;
          r = getKubeVersion K env k
      in case val r of
           Panics \<Rightarrow> \<lparr>val = Panics, effects = effects r, unjoined = unjoined r\<rparr>
         | Returns (version, Some err) \<Rightarrow>
             \<lparr>val = Returns (metadata, Some err), effects = effects r, unjoined = unjoined r\<rparr>
         | Returns (version, None) \<Rightarrow>
             \<lparr>val = Returns (metadata\<lparr>Version := version, ClusterRuntime := RuntimeFlag K\<rparr>, None),
              effects = effects r, unjoined = unjoined r\<rparr>)"

definition GetClusterMetadata ::
  "Consts \<Rightarrow> 'h Env \<Rightarrow> 'h Runtime \<Rightarrow> (Metadata \<times> error option) outcome ret" where
  "GetClusterMetadata K env k = getClusterMetadata K env k"

subsection \<open>Joining masters and nodes\<close>

text \<open>
  Modelled from the spec: \<^verbatim>\<open>joinMasters\<close> and \<^verbatim>\<open>joinNodes\<close> are defined in files that
  are not part of these sources. "JoinMasters(IPs) / JoinNodes(IPs): no-op if input
  empty; otherwise prepare hosts, fetch fresh token from master0, apply join plan."
  The three steps of the non-empty case are the parameter \<open>join\<close>.
\<close>

definition joinMasters ::
  "(IP list \<Rightarrow> error option ret) \<Rightarrow> 'h Runtime \<Rightarrow> IP list \<Rightarrow> error option ret" where
  "joinMasters join k masters =
     (if masters = [] then \<lparr>val = None, effects = [], unjoined = []\<rparr> else join masters)"

definition joinNodes ::
  "(IP list \<Rightarrow> error option ret) \<Rightarrow> 'h Runtime \<Rightarrow> IP list \<Rightarrow> error option ret" where
  "joinNodes join k nodes =
     (if nodes = [] then \<lparr>val = None, effects = [], unjoined = []\<rparr> else join nodes)"

definition Infof :: "string \<Rightarrow> string list \<Rightarrow> action list" where
  "Infof f args = [Log (Sprintf f args)]"

definition JoinMasters ::
  "(IP list \<Rightarrow> error option ret) \<Rightarrow> 'h Runtime \<Rightarrow> IP list \<Rightarrow> error option ret" where
  "JoinMasters join k newMastersIPList =
     (let logged =
            (if length newMastersIPList \<noteq> 0
             then Infof ''%s will be added as master'' [IPList_String newMastersIPList]
             else []);
          r = joinMasters join k newMastersIPList
      in r\<lparr>effects := logged @ effects r\<rparr>)"

definition JoinNodes ::
  "(IP list \<Rightarrow> error option ret) \<Rightarrow> 'h Runtime \<Rightarrow> IP list \<Rightarrow> error option ret" where
  "JoinNodes join k newNodesIPList =
     (let logged =
            (if length newNodesIPList \<noteq> 0
             then Infof ''%s will be added as worker'' [IPList_String newNodesIPList]
             else []);
          r = joinNodes join k newNodesIPList
      in r\<lparr>effects := logged @ effects r\<rparr>)"

subsection \<open>The words of the specification on the version string\<close>

text \<open>
  The specification reads the version as the trimmed standard output, cut at the first
  \<^verbatim>\<open>+\<close>. \<open>TrimSpace\<close> removes the white space at both ends, as \<^verbatim>\<open>strings.TrimSpace\<close>
  does on ASCII text.
\<close>

definition isSpace :: "char \<Rightarrow> bool" where
  "isSpace c = (c \<in> set [CHR 0x09, CHR 0x0A, CHR 0x0B, CHR 0x0C, CHR 0x0D, CHR '' ''])"

definition TrimSpace :: "string \<Rightarrow> string" where
  "TrimSpace s = rev (dropWhile isSpace (rev (dropWhile isSpace s)))"

definition spec_version :: "string \<Rightarrow> string" where
  "spec_version stdout = TrimSpace (takeWhile (\<lambda>c. c \<noteq> CHR ''+'') stdout)"

subsection \<open>A sample cluster\<close>

text \<open>
  Concrete inputs on which the statements below are evaluated: the cluster of scenario
  S1 (one master, two workers, registry \<^verbatim>\<open>sea.hub:5000\<close>), sample values for the package
  constants, and remote hosts of which \<^verbatim>\<open>10.0.0.3\<close> refuses every connection while the
  others answer the third ping.
\<close>

definition demo_consts :: Consts where
  "demo_consts =
     \<lparr>ControllerRole = ''controller'', WorkerRole = ''worker'',
      DefaultK0sControllerJoin = ''/etc/k0s/controller'',
      DefaultK0sWorkerJoin = ''/etc/k0s/worker'',
      DefaultK0sConfigPath = ''/etc/k0s/k0s.yaml'',
      ExternalCRI = ''remote:/run/containerd/containerd.sock'',
      RuntimeFlag = ''k0s'', VersionCmd = ''k0s version''\<rparr>"

definition demo_cluster :: "IP Cluster" where
  "demo_cluster =
     \<lparr>Name = ''demo'',
      Hosts = [Some ''10.0.0.1'', Some ''10.0.0.2'', Some ''10.0.0.3''],
      MasterIPs = [Some ''10.0.0.1'']\<rparr>"

definition demo_registry :: Config where
  "demo_registry = \<lparr>Domain_reg = ''sea.hub'', Port_reg = ''5000''\<rparr>"

definition demo_runtime :: "IP Runtime" where
  "demo_runtime = \<lparr>cluster = demo_cluster, Vlog = 0, RegConfig = Some demo_registry\<rparr>"

definition demo_env :: "string \<Rightarrow> IP Env" where
  "demo_env stdout =
     \<lparr>NewStdoutSSHClient = (\<lambda>ip c. Inr (SSH ip)),
      Copy = (\<lambda>ssh host src dst.
        if host = Some ''10.0.0.3'' then Some ''connection refused'' else None),
      Ping = (\<lambda>ssh host n.
        if host = Some ''10.0.0.3'' \<or> n < 2 then Some ''connection refused'' else None),
      Cmd = (\<lambda>ssh host cmd. (stdout, None)),
      GetConfig = (\<lambda>dir ip. Some demo_registry),
      DefaultMountClusterImageDir = (\<lambda>name. ''/var/lib/sealer/data/'' @ name @ ''/mount''),
      DebugLevel = False\<rparr>"

section \<open>Properties\<close>

subsection \<open>Auxiliary facts\<close>

lemma foldl_Go: "foldl (\<lambda>eg x. Go eg (f x)) acc xs = acc @ map f xs"
  by (induction xs arbitrary: acc) (simp_all add: Go_def)

lemma Split_not_Nil: "Split s sep \<noteq> []"
  by (induction s) (simp_all split: list.splits)

lemma Split_first: "\<exists>rest. Split s sep = takeWhile (\<lambda>c. c \<noteq> sep) s # rest"
  by (induction s) (auto split: list.splits)

lemma checkList_iff:
  "checkList k = None \<longleftrightarrow> Hosts (cluster k) \<noteq> [] \<and> GetMaster0IP (cluster k) \<noteq> None"
  by (simp add: checkList_def)

subsection \<open>Construction\<close>

text \<open>
  Claim C2. For every cluster that passes the host and master0 checks of \<open>checkList\<close>,
  \<open>NewK0sRuntime\<close> returns the nil installer together with the nil error.
\<close>

theorem NewK0sRuntime_nil_installer:
  "checkList \<lparr>cluster = c, Vlog = v, RegConfig = rc\<rparr> = None \<Longrightarrow>
   val (NewK0sRuntime env c) = (None, None)"
  by (simp add: NewK0sRuntime_def newK0sRuntime_def checkList_iff Let_def split: option.splits)

theorem NewK0sRuntime_nil_installer_witness:
  "checkList \<lparr>cluster = demo_cluster, Vlog = 0, RegConfig = None\<rparr> = None \<and>
   val (NewK0sRuntime (demo_env '''') demo_cluster) = (None, None)"
proof -
  have h: "checkList \<lparr>cluster = demo_cluster, Vlog = 0, RegConfig = None\<rparr> = None"
    by (simp add: checkList_def demo_cluster_def GetMaster0IP_def)
  show ?thesis
    using h NewK0sRuntime_nil_installer [OF h, of "demo_env ''''"] by simp
qed

text \<open>
  Claim C5. Construction fails with an error whenever the host list of the cluster is
  empty or the cluster has no master0 address, and it has then issued no remote action
  and started no task; with hosts and a master0 address, \<open>checkList\<close> passes and
  construction returns no error. (The registry configuration is read before the check;
  that reader is a parameter of the model and is not a remote action.)
\<close>

theorem newK0sRuntime_checks:
  "(Hosts c = [] \<or> GetMaster0IP c = None \<longrightarrow>
      snd (val (NewK0sRuntime env c)) \<noteq> None \<and> effects (NewK0sRuntime env c) = [] \<and>
      unjoined (NewK0sRuntime env c) = []) \<and>
   (Hosts c \<noteq> [] \<and> GetMaster0IP c \<noteq> None \<longrightarrow>
      checkList \<lparr>cluster = c, Vlog = v, RegConfig = rc\<rparr> = None \<and>
      snd (val (NewK0sRuntime env c)) = None)"
  by (auto simp add: NewK0sRuntime_def newK0sRuntime_def checkList_def Let_def split: option.splits)

text \<open>The three cases on the sample cluster: no hosts, no master, and the cluster as it is.\<close>

theorem newK0sRuntime_checks_witness:
  "Hosts (demo_cluster\<lparr>Hosts := []\<rparr>) = [] \<and>
   val (NewK0sRuntime (demo_env '''') (demo_cluster\<lparr>Hosts := []\<rparr>)) =
     (None, Some ''hosts spec cannot be empty'') \<and>
   effects (NewK0sRuntime (demo_env '''') (demo_cluster\<lparr>Hosts := []\<rparr>)) = [] \<and>
   Hosts (demo_cluster\<lparr>MasterIPs := []\<rparr>) \<noteq> [] \<and>
   GetMaster0IP (demo_cluster\<lparr>MasterIPs := []\<rparr>) = None \<and>
   val (NewK0sRuntime (demo_env '''') (demo_cluster\<lparr>MasterIPs := []\<rparr>)) =
     (None, Some ''master0 IP cannot be empty'') \<and>
   effects (NewK0sRuntime (demo_env '''') (demo_cluster\<lparr>MasterIPs := []\<rparr>)) = [] \<and>
   Hosts demo_cluster \<noteq> [] \<and> GetMaster0IP demo_cluster \<noteq> None \<and>
   checkList demo_runtime = None \<and>
   snd (val (NewK0sRuntime (demo_env '''') demo_cluster)) = None"
  using newK0sRuntime_checks [of "demo_cluster\<lparr>Hosts := []\<rparr>" "demo_env ''''" 0 None]
    newK0sRuntime_checks [of "demo_cluster\<lparr>MasterIPs := []\<rparr>" "demo_env ''''" 0 None]
    newK0sRuntime_checks [of demo_cluster "demo_env ''''" 0 "Some demo_registry"]
  by (simp add: demo_cluster_def demo_runtime_def GetMaster0IP_def NewK0sRuntime_def
      newK0sRuntime_def checkList_def Errorf_def Let_def)

subsection \<open>Joining nothing\<close>

text \<open>
  Claim C7. Called with an empty address list, \<open>JoinMasters\<close> and \<open>JoinNodes\<close> return nil,
  write no log line, issue no remote action and start no task. The wrappers are the
  source's; \<open>joinMasters\<close> and \<open>joinNodes\<close> are modelled from the specification.
\<close>

theorem JoinMasters_JoinNodes_empty:
  "JoinMasters join k [] = \<lparr>val = None, effects = [], unjoined = []\<rparr> \<and>
   JoinNodes join k [] = \<lparr>val = None, effects = [], unjoined = []\<rparr>"
  by (simp add: JoinMasters_def JoinNodes_def joinMasters_def joinNodes_def)

subsection \<open>Version and metadata\<close>

text \<open>The index expression of \<open>getKubeVersion\<close> is always in range.\<close>

lemma getKubeVersion_returns: "val (getKubeVersion K env k) \<noteq> Panics"
  by (auto simp add: getKubeVersion_def Let_def Split_not_Nil split: sum.splits prod.splits option.splits list.splits)

text \<open>
  Claim C8. When the version read succeeds, \<open>GetClusterMetadata\<close> returns the metadata
  whose version is the one read from master0 and whose cluster runtime is the runtime
  flag, with no error; when the version read fails, it returns that error together with
  a metadata value whose fields are unset. It never panics, and its only effects are
  those of the version read.
\<close>

theorem GetClusterMetadata_version_and_flag:
  "(val (getKubeVersion K env k) = Returns (version, None) \<longrightarrow>
      val (GetClusterMetadata K env k) =
        Returns (\<lparr>Version = version, ClusterRuntime = RuntimeFlag K\<rparr>, None)) \<and>
   (val (getKubeVersion K env k) = Returns (version, Some err) \<longrightarrow>
      val (GetClusterMetadata K env k) =
        Returns (\<lparr>Version = '''', ClusterRuntime = ''''\<rparr>, Some err)) \<and>
   val (GetClusterMetadata K env k) \<noteq> Panics \<and>
   effects (GetClusterMetadata K env k) = effects (getKubeVersion K env k)"
  using getKubeVersion_returns [of K env k]
  by (auto simp add: GetClusterMetadata_def getClusterMetadata_def Let_def
      split: outcome.splits option.splits prod.splits)

theorem GetClusterMetadata_version_and_flag_witness:
  "val (getKubeVersion demo_consts (demo_env (''v1.23.3+k0s.0'' @ [CHR 0x0A])) demo_runtime) =
     Returns (''v1.23.3'', None) \<and>
   val (GetClusterMetadata demo_consts (demo_env (''v1.23.3+k0s.0'' @ [CHR 0x0A])) demo_runtime) =
     Returns (\<lparr>Version = ''v1.23.3'', ClusterRuntime = ''k0s''\<rparr>, None) \<and>
   val (getKubeVersion demo_consts
          ((demo_env '''')\<lparr>Cmd := \<lambda>ssh host cmd. ('''', Some ''exit status 1'')\<rparr>) demo_runtime) =
     Returns ('''', Some ''exit status 1'') \<and>
   val (GetClusterMetadata demo_consts
          ((demo_env '''')\<lparr>Cmd := \<lambda>ssh host cmd. ('''', Some ''exit status 1'')\<rparr>) demo_runtime) =
     Returns (\<lparr>Version = '''', ClusterRuntime = ''''\<rparr>, Some ''exit status 1'')"
proof -
  have ok: "val (getKubeVersion demo_consts (demo_env (''v1.23.3+k0s.0'' @ [CHR 0x0A])) demo_runtime) =
     Returns (''v1.23.3'', None)"
    by (simp add: getKubeVersion_def getHostSSHClient_def demo_env_def Let_def)
  have bad: "val (getKubeVersion demo_consts
          ((demo_env '''')\<lparr>Cmd := \<lambda>ssh host cmd. ('''', Some ''exit status 1'')\<rparr>) demo_runtime) =
     Returns ('''', Some ''exit status 1'')"
    by (simp add: getKubeVersion_def getHostSSHClient_def demo_env_def Let_def)
  show ?thesis
    using ok bad
      GetClusterMetadata_version_and_flag [of demo_consts
        "demo_env (''v1.23.3+k0s.0'' @ [CHR 0x0A])" demo_runtime "''v1.23.3''" "''exit status 1''"]
      GetClusterMetadata_version_and_flag [of demo_consts
        "(demo_env '''')\<lparr>Cmd := \<lambda>ssh host cmd. ('''', Some ''exit status 1'')\<rparr>" demo_runtime
        "''''" "''exit status 1''"]
    by (simp add: demo_consts_def)
qed

text \<open>
  Claim C4 says that \<open>getKubeVersion\<close> returns the trimmed version. It does not trim:
  on the standard output \<^verbatim>\<open>v1.23.3\<close> followed by a newline, which has no \<^verbatim>\<open>+\<close>, it returns
  the output with its newline, where the specification's reading gives \<^verbatim>\<open>v1.23.3\<close>.
\<close>

theorem getKubeVersion_untrimmed_counterexample:
  "val (getKubeVersion demo_consts (demo_env (''v1.23.3'' @ [CHR 0x0A])) demo_runtime) =
     Returns (''v1.23.3'' @ [CHR 0x0A], None) \<and>
   spec_version (''v1.23.3'' @ [CHR 0x0A]) = ''v1.23.3'' \<and>
   CHR ''+'' \<notin> set (''v1.23.3'' @ [CHR 0x0A])"
  by (simp add: getKubeVersion_def getHostSSHClient_def demo_env_def Let_def
      spec_version_def TrimSpace_def isSpace_def)

text \<open>
  Claim C4, as the code has it. When the client for master0 is obtained and the version
  command succeeds, \<open>getKubeVersion\<close> returns the standard output up to, and without, the
  first \<^verbatim>\<open>+\<close>, exactly as produced (no white space is removed); for an output with no
  \<^verbatim>\<open>+\<close> it returns the whole output unchanged.
\<close>

theorem getKubeVersion_cuts_at_plus:
  assumes "getHostSSHClient env k (GetMaster0IP (cluster k)) = Inr ssh"
    and "Cmd env ssh (GetMaster0IP (cluster k)) (VersionCmd K) = (stdout, None)"
  shows "val (getKubeVersion K env k) = Returns (takeWhile (\<lambda>c. c \<noteq> CHR ''+'') stdout, None) \<and>
         (CHR ''+'' \<notin> set stdout \<longrightarrow> val (getKubeVersion K env k) = Returns (stdout, None))"
proof -
  obtain rest where "Split stdout (CHR ''+'') = takeWhile (\<lambda>c. c \<noteq> CHR ''+'') stdout # rest"
    using Split_first by blast
  then have "val (getKubeVersion K env k) = Returns (takeWhile (\<lambda>c. c \<noteq> CHR ''+'') stdout, None)"
    using assms by (simp add: getKubeVersion_def Let_def)
  moreover have "CHR ''+'' \<notin> set stdout \<Longrightarrow> takeWhile (\<lambda>c. c \<noteq> CHR ''+'') stdout = stdout"
    by (induction stdout) auto
  ultimately show ?thesis by simp
qed

theorem getKubeVersion_cuts_at_plus_witness:
  "getHostSSHClient (demo_env (''v1.23.3+k0s.0'' @ [CHR 0x0A])) demo_runtime
     (GetMaster0IP (cluster demo_runtime)) = Inr (SSH (Some ''10.0.0.1'')) \<and>
   val (getKubeVersion demo_consts (demo_env (''v1.23.3+k0s.0'' @ [CHR 0x0A])) demo_runtime) =
     Returns (''v1.23.3'', None) \<and>
   CHR ''+'' \<notin> set '' v1.23.3 '' \<and>
   val (getKubeVersion demo_consts (demo_env '' v1.23.3 '') demo_runtime) =
     Returns ('' v1.23.3 '', None)"
proof -
  have c: "getHostSSHClient (demo_env out) demo_runtime (GetMaster0IP (cluster demo_runtime)) =
     Inr (SSH (Some ''10.0.0.1''))" for out
    by (simp add: getHostSSHClient_def demo_env_def demo_runtime_def demo_cluster_def GetMaster0IP_def)
  have r: "Cmd (demo_env out) (SSH (Some ''10.0.0.1'')) (GetMaster0IP (cluster demo_runtime))
     (VersionCmd demo_consts) = (out, None)" for out
    by (simp add: demo_env_def)
  show ?thesis
    using c getKubeVersion_cuts_at_plus [OF c r, of "''v1.23.3+k0s.0'' @ [CHR 0x0A]"]
      getKubeVersion_cuts_at_plus [OF c r, of "'' v1.23.3 ''"]
    by simp
qed

subsection \<open>Join commands\<close>

text \<open>
  Claim C6. For the controller role, \<open>JoinCommand\<close> returns five commands: the third
  writes the repository \<^verbatim>\<open>Domain:Port\<close> of the registry configuration into the k0s
  configuration, the fourth installs the controller with the controller token file and
  the external container runtime socket, the last starts the service. For the worker
  role it returns two: install the worker with the external socket and the worker
  token file, then start the service. The two role constants are distinct (Go rejects
  a map literal with a repeated constant key) and the runtime has a registry
  configuration.
\<close>

theorem JoinCommand_controller_worker:
  assumes "ControllerRole K \<noteq> WorkerRole K" and "RegConfig k = Some reg"
  shows \<open>JoinCommand K k (ControllerRole K) = Returns (Some
           [''mkdir -r /etc/k0s'',
            ''k0s config create > '' @ DefaultK0sConfigPath K,
            ''sed -i '/  images/ a'' @ [CHR 0x5C] @ ''    repository: "'' @ Domain_reg reg @ '':'' @
              Port_reg reg @ ''"' '' @ DefaultK0sConfigPath K,
            ''k0s install controller --token-file '' @ DefaultK0sControllerJoin K @ '' -c '' @
              DefaultK0sConfigPath K @ '' --cri-socket '' @ ExternalCRI K,
            ''k0s start'']) \<and>
         JoinCommand K k (WorkerRole K) = Returns (Some
           [''k0s install worker --cri-socket '' @ ExternalCRI K @ '' --token-file '' @
              DefaultK0sWorkerJoin K,
            ''k0s start''])\<close>
  using assms by (simp add: JoinCommand_def)

theorem JoinCommand_controller_worker_witness:
  \<open>ControllerRole demo_consts \<noteq> WorkerRole demo_consts \<and>
   RegConfig demo_runtime = Some demo_registry \<and>
   JoinCommand demo_consts demo_runtime ''controller'' = Returns (Some
     [''mkdir -r /etc/k0s'',
      ''k0s config create > /etc/k0s/k0s.yaml'',
      ''sed -i '/  images/ a'' @ [CHR 0x5C] @ ''    repository: "sea.hub:5000"' /etc/k0s/k0s.yaml'',
      ''k0s install controller --token-file /etc/k0s/controller -c /etc/k0s/k0s.yaml --cri-socket remote:/run/containerd/containerd.sock'',
      ''k0s start'']) \<and>
   JoinCommand demo_consts demo_runtime ''worker'' = Returns (Some
     [''k0s install worker --cri-socket remote:/run/containerd/containerd.sock --token-file /etc/k0s/worker'',
      ''k0s start''])\<close>
proof -
  have h1: "ControllerRole demo_consts \<noteq> WorkerRole demo_consts"
    by (simp add: demo_consts_def)
  have h2: "RegConfig demo_runtime = Some demo_registry"
    by (simp add: demo_runtime_def)
  show ?thesis
    using h1 h2 JoinCommand_controller_worker [OF h1 h2]
    by (simp add: demo_consts_def demo_registry_def)
qed

text \<open>
  Claim C3 says that an unknown role gets the worker command sequence. It does not:
  for the role \<^verbatim>\<open>etcd\<close>, neither of the two role constants, \<open>JoinCommand\<close> returns the nil
  slice, while the worker role gets a sequence.
\<close>

theorem unknown_role_JoinCommand_counterexample:
  "''etcd'' \<noteq> ControllerRole demo_consts \<and> ''etcd'' \<noteq> WorkerRole demo_consts \<and>
   JoinCommand demo_consts demo_runtime ''etcd'' = Returns None \<and>
   JoinCommand demo_consts demo_runtime (WorkerRole demo_consts) \<noteq> Returns None"
  by (simp add: JoinCommand_def demo_consts_def demo_runtime_def)

text \<open>
  Claim C3, as the code has it. For every role other than the controller and the worker
  role, \<open>CopyJoinToken\<close> behaves as for the worker role and copies the worker join token
  path, while \<open>JoinCommand\<close> returns the nil slice (no command sequence).
\<close>

theorem unknown_role_worker_path_nil_commands:
  assumes "role \<noteq> ControllerRole K" and "role \<noteq> WorkerRole K"
    and "ControllerRole K \<noteq> WorkerRole K"
  shows "CopyJoinToken K env k role hosts = CopyJoinToken K env k (WorkerRole K) hosts \<and>
         joinCertPath K role = DefaultK0sWorkerJoin K \<and>
         (getHostSSHClient env k (GetMaster0IP (cluster k)) = Inr ssh \<longrightarrow>
            unjoined (CopyJoinToken K env k role hosts) =
              map (copyToken env ssh (DefaultK0sWorkerJoin K)) hosts) \<and>
         (RegConfig k = Some reg \<longrightarrow> JoinCommand K k role = Returns None)"
proof -
  have p: "joinCertPath K role = DefaultK0sWorkerJoin K"
    using assms by (simp add: joinCertPath_def)
  have w: "joinCertPath K (WorkerRole K) = DefaultK0sWorkerJoin K"
    using assms(3) by (auto simp add: joinCertPath_def)
  have j: "RegConfig k = Some reg \<Longrightarrow> JoinCommand K k role = Returns None"
    using assms by (simp add: JoinCommand_def)
  show ?thesis
    using p j by (simp add: CopyJoinToken_def w foldl_Go Let_def split: sum.splits)
qed

theorem unknown_role_worker_path_nil_commands_witness:
  "''etcd'' \<noteq> ControllerRole demo_consts \<and> ''etcd'' \<noteq> WorkerRole demo_consts \<and>
   ControllerRole demo_consts \<noteq> WorkerRole demo_consts \<and>
   getHostSSHClient (demo_env '''') demo_runtime (GetMaster0IP (cluster demo_runtime)) =
     Inr (SSH (Some ''10.0.0.1'')) \<and>
   RegConfig demo_runtime = Some demo_registry \<and>
   unjoined (CopyJoinToken demo_consts (demo_env '''') demo_runtime ''etcd'' [Some ''10.0.0.2'']) =
     [(None, [CopyTo (Some ''10.0.0.2'') ''/etc/k0s/worker'' ''/etc/k0s/worker''])] \<and>
   JoinCommand demo_consts demo_runtime ''etcd'' = Returns None"
proof -
  have h1: "''etcd'' \<noteq> ControllerRole demo_consts" and h2: "''etcd'' \<noteq> WorkerRole demo_consts"
    and h0: "ControllerRole demo_consts \<noteq> WorkerRole demo_consts"
    by (simp_all add: demo_consts_def)
  have h3: "getHostSSHClient (demo_env '''') demo_runtime (GetMaster0IP (cluster demo_runtime)) =
     Inr (SSH (Some ''10.0.0.1''))"
    by (simp add: getHostSSHClient_def demo_env_def demo_runtime_def demo_cluster_def GetMaster0IP_def)
  have h4: "RegConfig demo_runtime = Some demo_registry"
    by (simp add: demo_runtime_def)
  have c: "Copy (demo_env '''') s (Some ''10.0.0.2'') p q = None" for s p q
    by (simp add: demo_env_def)
  have d: "DefaultK0sWorkerJoin demo_consts = ''/etc/k0s/worker''"
    by (simp add: demo_consts_def)
  note t = unknown_role_worker_path_nil_commands [OF h1 h2 h0, of "demo_env ''''" demo_runtime
        "[Some ''10.0.0.2'']" "SSH (Some ''10.0.0.1'')" demo_registry]
  have u: "unjoined (CopyJoinToken demo_consts (demo_env '''') demo_runtime ''etcd''
             [Some ''10.0.0.2'']) =
           map (copyToken (demo_env '''') (SSH (Some ''10.0.0.1''))
             (DefaultK0sWorkerJoin demo_consts)) [Some ''10.0.0.2'']"
    using t h3 by blast
  have j: "JoinCommand demo_consts demo_runtime ''etcd'' = Returns None"
    using t h4 by blast
  show ?thesis
    using h0 h1 h2 h3 h4 j by (simp add: u copyToken_def c d)
qed

subsection \<open>Copying the join token\<close>

text \<open>
  Once the client for master0 is there, \<open>CopyJoinToken\<close> starts one copy task per host and
  returns nil at once: no copy is known to have happened when it returns, and every
  task, whatever its error, is left unjoined.
\<close>

lemma CopyJoinToken_never_waits:
  assumes "getHostSSHClient env k (GetMaster0IP (cluster k)) = Inr ssh"
  shows "CopyJoinToken K env k role hosts =
         \<lparr>val = None, effects = [],
          unjoined = map (copyToken env ssh (joinCertPath K role)) hosts\<rparr>"
  using assms by (simp add: CopyJoinToken_def foldl_Go Let_def)

text \<open>
  Claim C1 says that \<open>CopyJoinToken\<close> returns only after every copy has completed, and
  returns an error when a copy fails. On the sample cluster the copy to \<^verbatim>\<open>10.0.0.3\<close> is
  refused; \<open>CopyJoinToken\<close> still returns nil, with no copy certain to be done at its
  return and the failed task left unjoined. (\<open>sendFileToHosts\<close> and \<open>WaitSSHReady\<close> end with
  \<^verbatim>\<open>return eg.Wait()\<close>; this function ends with \<^verbatim>\<open>return nil\<close>.)
\<close>

theorem CopyJoinToken_drops_copy_error:
  "Copy (demo_env '''') (SSH (Some ''10.0.0.1'')) (Some ''10.0.0.3'')
     ''/etc/k0s/worker'' ''/etc/k0s/worker'' = Some ''connection refused'' \<and>
   CopyJoinToken demo_consts (demo_env '''') demo_runtime ''worker'' [Some ''10.0.0.3''] =
     \<lparr>val = None, effects = [],
      unjoined = [(Some ''connection refused'',
                   [CopyTo (Some ''10.0.0.3'') ''/etc/k0s/worker'' ''/etc/k0s/worker''])]\<rparr>"
  by (simp add: CopyJoinToken_def getHostSSHClient_def demo_env_def demo_runtime_def
      demo_cluster_def demo_consts_def GetMaster0IP_def joinCertPath_def copyToken_def Go_def)

subsection \<open>Fan-out over hosts\<close>

text \<open>The first error of a list of results, and schedules.\<close>

lemma first_error_None_iff: "first_error es = None \<longleftrightarrow> (\<forall>e\<in>set es. e = None)"
  by (induction es rule: first_error.induct) auto

lemma first_error_Some:
  "first_error es = Some e \<Longrightarrow> \<exists>n<length es. es ! n = Some e \<and> (\<forall>j<n. es ! j = None)"
proof (induction es rule: first_error.induct)
  case 1
  then show ?case by simp
next
  case (2 es)
  then obtain n where n: "n < length es" "es ! n = Some e" "\<forall>j<n. es ! j = None"
    by auto
  have "\<forall>j<Suc n. (None # es) ! j = None"
    using n(3) by (auto simp add: nth_Cons split: nat.splits)
  with n(1,2) show ?case
    by (intro exI [of _ "Suc n"]) simp
next
  case (3 e' es)
  then show ?case by (intro exI [of _ 0]) simp
qed

lemma schedule_set: "schedule order xs \<Longrightarrow> set order = {0..<length xs}"
proof -
  assume "schedule order xs"
  then have "set order = set [0..<length xs]"
    unfolding schedule_def by (rule mset_eq_setD)
  then show ?thesis by simp
qed

lemma schedule_nth_map:
  assumes "schedule order xs"
  shows "map (\<lambda>i. map f xs ! i) order = map (\<lambda>i. f (xs ! i)) order"
  using schedule_set [OF assms] by (intro map_cong) auto

lemma schedule_mset_map:
  assumes "schedule order xs"
  shows "mset (map (\<lambda>i. f (xs ! i)) order) = mset (map f xs)"
proof -
  have "mset (map (\<lambda>i. f (xs ! i)) order) = image_mset (\<lambda>i. f (xs ! i)) (mset order)"
    by simp
  also have "\<dots> = image_mset (\<lambda>i. f (xs ! i)) (mset [0..<length xs])"
    using assms by (simp add: schedule_def)
  also have "\<dots> = mset (map (\<lambda>i. f (xs ! i)) [0..<length xs])"
    by simp
  also have "map (\<lambda>i. f (xs ! i)) [0..<length xs] = map f xs"
    by (rule nth_equalityI) simp_all
  finally show ?thesis .
qed

lemma mset_concat_perm:
  "mset xss = mset yss \<Longrightarrow> mset (concat xss) = mset (concat yss)"
proof -
  assume "mset xss = mset yss"
  then have "mset (map mset xss) = mset (map mset yss)"
    by (metis mset_map)
  then have "sum_list (map mset xss) = sum_list (map mset yss)"
    by (metis sum_mset_sum_list)
  then show ?thesis
    by (simp only: mset_concat)
qed

lemma Wait_Go_all:
  assumes "schedule order xs"
  shows "Wait order (foldl (\<lambda>eg x. Go eg (f x)) [] xs) =
         (first_error (map (\<lambda>i. fst (f (xs ! i))) order),
          concat (map (\<lambda>i. snd (f (xs ! i))) order))"
  by (simp add: Wait_def foldl_Go schedule_nth_map [OF assms] comp_def Let_def)

lemma first_error_timeouts:
  "first_error (map (\<lambda>i. Some (g i)) order) = (case order of [] \<Rightarrow> None | i # _ \<Rightarrow> Some (g i))"
  by (cases order) simp_all

lemma sendFile_ok_iff:
  "fst (sendFile env k src dst h) = None \<longleftrightarrow>
   (\<exists>c. getHostSSHClient env k h = Inr c \<and> Copy env c h src dst = None)"
  by (auto simp add: sendFile_def split: sum.splits option.splits)

text \<open>
  Claim C9. Under any schedule of its tasks, \<open>sendFileToHosts\<close> has waited for every
  per-host task when it returns (no task is left unjoined, and the effects of all tasks
  have happened); it returns nil if and only if on every host of the list the client
  was obtained and the copy succeeded; otherwise it returns the error of the failed task
  that finished first, every task that finished before it having succeeded.
\<close>

theorem sendFileToHosts_waits_first_error:
  assumes "schedule order Hosts'"
  shows "unjoined (sendFileToHosts env k order Hosts' src dst) = [] \<and>
         mset (effects (sendFileToHosts env k order Hosts' src dst)) =
           mset (concat (map (\<lambda>h. snd (sendFile env k src dst h)) Hosts')) \<and>
         (val (sendFileToHosts env k order Hosts' src dst) = None \<longleftrightarrow>
            (\<forall>h\<in>set Hosts'. \<exists>c. getHostSSHClient env k h = Inr c \<and> Copy env c h src dst = None)) \<and>
         (val (sendFileToHosts env k order Hosts' src dst) \<noteq> None \<longrightarrow>
            (\<exists>n<length order.
               val (sendFileToHosts env k order Hosts' src dst) =
                 fst (sendFile env k src dst (Hosts' ! (order ! n))) \<and>
               (\<forall>j<n. fst (sendFile env k src dst (Hosts' ! (order ! j))) = None)))"
proof -
  let ?f = "sendFile env k src dst"
  let ?r = "sendFileToHosts env k order Hosts' src dst"
  have v: "val ?r = first_error (map (\<lambda>i. fst (?f (Hosts' ! i))) order)"
    and e: "effects ?r = concat (map (\<lambda>i. snd (?f (Hosts' ! i))) order)"
    and u: "unjoined ?r = []"
    by (simp_all add: sendFileToHosts_def Wait_Go_all [OF assms])
  have m: "mset (effects ?r) = mset (concat (map (\<lambda>h. snd (?f h)) Hosts'))"
    unfolding e using schedule_mset_map [OF assms, of "\<lambda>h. snd (?f h)"]
    by (rule mset_concat_perm)
  have "val ?r = None \<longleftrightarrow> (\<forall>i\<in>set order. fst (?f (Hosts' ! i)) = None)"
    by (simp add: v first_error_None_iff)
  also have "\<dots> \<longleftrightarrow> (\<forall>h\<in>set Hosts'. fst (?f h) = None)"
    by (auto simp add: schedule_set [OF assms] all_set_conv_all_nth)
  finally have n: "val ?r = None \<longleftrightarrow>
      (\<forall>h\<in>set Hosts'. \<exists>c. getHostSSHClient env k h = Inr c \<and> Copy env c h src dst = None)"
    by (simp add: sendFile_ok_iff)
  have f: "\<exists>n<length order. val ?r = fst (?f (Hosts' ! (order ! n))) \<and>
              (\<forall>j<n. fst (?f (Hosts' ! (order ! j))) = None)" if "val ?r \<noteq> None"
  proof -
    from that obtain err
      where s: "first_error (map (\<lambda>i. fst (?f (Hosts' ! i))) order) = Some err"
      by (auto simp add: v)
    from first_error_Some [OF s] obtain n
      where "n < length order" "fst (?f (Hosts' ! (order ! n))) = Some err"
        "\<forall>j<n. fst (?f (Hosts' ! (order ! j))) = None"
      by auto
    then show ?thesis
      unfolding v s by metis
  qed
  show ?thesis using u m n f by blast
qed

theorem sendFileToHosts_waits_first_error_witness:
  "schedule [1, 0] [Some ''10.0.0.2'', Some ''10.0.0.3''] \<and>
   sendFileToHosts (demo_env '''') demo_runtime [1, 0] [Some ''10.0.0.2'', Some ''10.0.0.3'']
       ''token'' ''/tmp/token'' =
     \<lparr>val = Some ''failed to send file: connection refused'',
      effects = [CopyTo (Some ''10.0.0.3'') ''token'' ''/tmp/token'',
                 CopyTo (Some ''10.0.0.2'') ''token'' ''/tmp/token''],
      unjoined = []\<rparr> \<and>
   schedule [0] [Some ''10.0.0.2''] \<and>
   val (sendFileToHosts (demo_env '''') demo_runtime [0] [Some ''10.0.0.2'']
       ''token'' ''/tmp/token'') = None"
proof -
  have s2: "schedule [1, 0] [Some ''10.0.0.2'', Some ''10.0.0.3'']"
    and s1: "schedule [0] [Some ''10.0.0.2'']"
    by (simp_all add: schedule_def upt_rec)
  have t: "sendFile (demo_env '''') demo_runtime src dst h =
      (if h = Some ''10.0.0.3'' then Some ''failed to send file: connection refused'' else None,
       [CopyTo h src dst])" for src dst h
    by (simp add: sendFile_def getHostSSHClient_def demo_env_def Errorf_def)
  show ?thesis
    using s1 s2
      sendFileToHosts_waits_first_error [OF s2, of "demo_env ''''" demo_runtime
        "''token''" "''/tmp/token''"]
      sendFileToHosts_waits_first_error [OF s1, of "demo_env ''''" demo_runtime
        "''token''" "''/tmp/token''"]
    by (simp add: sendFileToHosts_def Wait_def Go_def t)
qed

text \<open>The retry loop of \<open>WaitSSHReady\<close>, one step at a time.\<close>

lemma waitLoop_timeout:
  "tryTimes \<le> i \<Longrightarrow>
   waitLoop env k host tryTimes i =
     (Some (''wait for ['' @ IP_String host @
        ''] ssh ready timeout, ensure that the IP address or password is correct''), [])"
  by (subst waitLoop.simps) (simp add: Errorf_def del: waitLoop.simps)

lemma waitLoop_ping_ok:
  assumes "getHostSSHClient env k host = Inr c" and "int i < tryTimes"
    and "Ping env c host i = None"
  shows "waitLoop env k host tryTimes (int i) = (None, [PingTo host])"
  using assms by (subst waitLoop.simps) (simp del: waitLoop.simps)

lemma waitLoop_ping_failed:
  assumes "getHostSSHClient env k host = Inr c" and "int i < tryTimes"
    and "Ping env c host i \<noteq> None"
  shows "waitLoop env k host tryTimes (int i) =
         after [PingTo host, Sleep (int i)] (waitLoop env k host tryTimes (int (Suc i)))"
  using assms by (subst waitLoop.simps) (auto simp add: add.commute simp del: waitLoop.simps)

lemma waitLoop_first_success:
  assumes c: "getHostSSHClient env k host = Inr c"
    and n: "int n < tryTimes" and ok: "Ping env c host n = None"
    and le: "i \<le> n" and failed: "\<forall>j. i \<le> j \<and> j < n \<longrightarrow> Ping env c host j \<noteq> None"
  shows "waitLoop env k host tryTimes (int i) =
         (None, concat (map (\<lambda>j. [PingTo host, Sleep (int j)]) [i..<n]) @ [PingTo host])"
  using le failed
proof (induction rule: inc_induct)
  case base
  show ?case using waitLoop_ping_ok [OF c n ok] by (simp del: waitLoop.simps)
next
  case (step m)
  have "int m < tryTimes" using step.hyps(2) n by linarith
  moreover have "Ping env c host m \<noteq> None" using step.prems step.hyps(1,2) by simp
  ultimately have "waitLoop env k host tryTimes (int m) =
      after [PingTo host, Sleep (int m)] (waitLoop env k host tryTimes (int (Suc m)))"
    by (rule waitLoop_ping_failed [OF c])
  moreover have "waitLoop env k host tryTimes (int (Suc m)) =
      (None, concat (map (\<lambda>j. [PingTo host, Sleep (int j)]) [Suc m..<n]) @ [PingTo host])"
    using step.IH step.prems by (simp del: waitLoop.simps)
  ultimately show ?case
    using step.hyps(2) by (simp add: after_def upt_conv_Cons del: waitLoop.simps)
qed

text \<open>
  Claim C10. The task of \<open>WaitSSHReady\<close> for a host returns nil at the first ping that
  succeeds within \<open>tryTimes\<close> attempts, and pings no more after it; \<open>WaitSSHReady\<close> returns
  nil exactly when every host's task does. With \<open>tryTimes\<close> zero or negative, the task of
  every host returns the timeout error without a ping, so \<open>WaitSSHReady\<close> has no effect
  and returns the timeout error of the host whose task finished first (nil when there
  is no host).
\<close>

theorem WaitSSHReady_ping_success_or_timeout:
  "(getHostSSHClient env k host = Inr c \<and> int n < tryTimes \<and> Ping env c host n = None \<and>
      (\<forall>j<n. Ping env c host j \<noteq> None) \<longrightarrow>
      waitTask env k tryTimes host =
        (None, concat (map (\<lambda>j. [PingTo host, Sleep (int j)]) [0..<n]) @ [PingTo host])) \<and>
   (schedule order hosts \<longrightarrow>
      (val (WaitSSHReady env k order tryTimes hosts) = None \<longleftrightarrow>
         (\<forall>h\<in>set hosts. fst (waitTask env k tryTimes h) = None)) \<and>
      unjoined (WaitSSHReady env k order tryTimes hosts) = []) \<and>
   (tryTimes \<le> 0 \<longrightarrow>
      waitTask env k tryTimes host =
        (Some (''wait for ['' @ IP_String host @
           ''] ssh ready timeout, ensure that the IP address or password is correct''), []) \<and>
      (schedule order hosts \<longrightarrow>
         effects (WaitSSHReady env k order tryTimes hosts) = [] \<and>
         val (WaitSSHReady env k order tryTimes hosts) =
           (case order of [] \<Rightarrow> None
            | i # _ \<Rightarrow> Some (''wait for ['' @ IP_String (hosts ! i) @
                ''] ssh ready timeout, ensure that the IP address or password is correct''))))"
proof -
  let ?r = "WaitSSHReady env k order tryTimes hosts"
  let ?f = "waitTask env k tryTimes"
  have a: "?f host =
      (None, concat (map (\<lambda>j. [PingTo host, Sleep (int j)]) [0..<n]) @ [PingTo host])"
    if "getHostSSHClient env k host = Inr c" "int n < tryTimes" "Ping env c host n = None"
      "\<forall>j<n. Ping env c host j \<noteq> None"
    using waitLoop_first_success [OF that(1,2,3), of 0] that(4)
    by (simp add: waitTask_def del: waitLoop.simps)
  have v: "val ?r = first_error (map (\<lambda>i. fst (?f (hosts ! i))) order)"
    and e: "effects ?r = concat (map (\<lambda>i. snd (?f (hosts ! i))) order)"
    and u: "unjoined ?r = []" if "schedule order hosts"
    by (simp_all add: WaitSSHReady_def Wait_Go_all [OF that])
  have b: "val ?r = None \<longleftrightarrow> (\<forall>h\<in>set hosts. fst (?f h) = None)" if "schedule order hosts"
    by (auto simp add: v [OF that] first_error_None_iff schedule_set [OF that]
        all_set_conv_all_nth)
  have t: "?f h = (Some (''wait for ['' @ IP_String h @
           ''] ssh ready timeout, ensure that the IP address or password is correct''), [])"
    if "tryTimes \<le> 0" for h
    using that by (simp add: waitTask_def waitLoop_timeout del: waitLoop.simps)
  have d: "effects ?r = [] \<and> val ?r = (case order of [] \<Rightarrow> None
            | i # _ \<Rightarrow> Some (''wait for ['' @ IP_String (hosts ! i) @
                ''] ssh ready timeout, ensure that the IP address or password is correct''))"
    if "tryTimes \<le> 0" "schedule order hosts"
    by (simp add: v [OF that(2)] e [OF that(2)] t [OF that(1)] first_error_timeouts
        split: list.splits)
  show ?thesis using a b u t d by blast
qed

theorem WaitSSHReady_ping_success_or_timeout_witness:
  "getHostSSHClient (demo_env '''') demo_runtime (Some ''10.0.0.2'') =
     Inr (SSH (Some ''10.0.0.2'')) \<and>
   Ping (demo_env '''') (SSH (Some ''10.0.0.2'')) (Some ''10.0.0.2'') 0 \<noteq> None \<and>
   Ping (demo_env '''') (SSH (Some ''10.0.0.2'')) (Some ''10.0.0.2'') 1 \<noteq> None \<and>
   Ping (demo_env '''') (SSH (Some ''10.0.0.2'')) (Some ''10.0.0.2'') 2 = None \<and>
   waitTask (demo_env '''') demo_runtime 5 (Some ''10.0.0.2'') =
     (None, [PingTo (Some ''10.0.0.2''), Sleep 0, PingTo (Some ''10.0.0.2''), Sleep 1,
             PingTo (Some ''10.0.0.2'')]) \<and>
   schedule [1, 0] [Some ''10.0.0.2'', Some ''10.0.0.3''] \<and>
   val (WaitSSHReady (demo_env '''') demo_runtime [1, 0] 5
          [Some ''10.0.0.2'', Some ''10.0.0.3'']) \<noteq> None \<and>
   waitTask (demo_env '''') demo_runtime 0 (Some ''10.0.0.2'') =
     (Some ''wait for [10.0.0.2] ssh ready timeout, ensure that the IP address or password is correct'',
      []) \<and>
   WaitSSHReady (demo_env '''') demo_runtime [1, 0] 0 [Some ''10.0.0.2'', Some ''10.0.0.3''] =
     \<lparr>val = Some ''wait for [10.0.0.3] ssh ready timeout, ensure that the IP address or password is correct'',
      effects = [], unjoined = []\<rparr>"
proof -
  let ?E = "demo_env ''''"
  let ?h2 = "Some ''10.0.0.2''"
  let ?hs = "[Some ''10.0.0.2'', Some ''10.0.0.3'']"
  have c: "getHostSSHClient ?E demo_runtime h = Inr (SSH h)" for h
    by (simp add: getHostSSHClient_def demo_env_def)
  have p: "Ping ?E (SSH ?h2) ?h2 0 \<noteq> None" "Ping ?E (SSH ?h2) ?h2 1 \<noteq> None"
    "Ping ?E (SSH ?h2) ?h2 2 = None"
    by (simp_all add: demo_env_def)
  have p': "\<forall>j<2. Ping ?E (SSH ?h2) ?h2 j \<noteq> None"
    by (simp add: demo_env_def)
  have s: "schedule [1, 0] ?hs"
    by (simp add: schedule_def upt_rec)
  have q: "Ping ?E ssh (Some ''10.0.0.3'') j = Some ''connection refused''" for ssh j
    by (simp add: demo_env_def)
  have dead: "fst (waitTask ?E demo_runtime 5 (Some ''10.0.0.3'')) \<noteq> None"
    by (simp add: waitTask_def c q after_def)
  note live = WaitSSHReady_ping_success_or_timeout [of ?E demo_runtime ?h2 "SSH ?h2" 2 5 "[1, 0]" ?hs]
  note late = WaitSSHReady_ping_success_or_timeout [of ?E demo_runtime ?h2 "SSH ?h2" 2 0 "[1, 0]" ?hs]
  have w: "waitTask ?E demo_runtime 5 ?h2 =
      (None, concat (map (\<lambda>j. [PingTo ?h2, Sleep (int j)]) [0..<2]) @ [PingTo ?h2])"
    using live c p(3) p' by simp
  have v: "val (WaitSSHReady ?E demo_runtime [1, 0] 5 ?hs) \<noteq> None"
    using live s dead by simp
  have t: "waitTask ?E demo_runtime 0 ?h2 =
      (Some (''wait for ['' @ IP_String ?h2 @
         ''] ssh ready timeout, ensure that the IP address or password is correct''), [])"
    using late by simp
  have r: "effects (WaitSSHReady ?E demo_runtime [1, 0] 0 ?hs) = [] \<and>
      val (WaitSSHReady ?E demo_runtime [1, 0] 0 ?hs) =
        Some (''wait for ['' @ IP_String (?hs ! 1) @
          ''] ssh ready timeout, ensure that the IP address or password is correct'') \<and>
      unjoined (WaitSSHReady ?E demo_runtime [1, 0] 0 ?hs) = []"
    using late s by simp
  have r': "WaitSSHReady ?E demo_runtime [1, 0] 0 ?hs =
      \<lparr>val = Some ''wait for [10.0.0.3] ssh ready timeout, ensure that the IP address or password is correct'',
       effects = [], unjoined = []\<rparr>"
    using r by (cases "WaitSSHReady ?E demo_runtime [1, 0] 0 ?hs") (simp add: IP_String_def)
  show ?thesis
    using c p s v r' by (simp add: w t IP_String_def upt_rec)
qed

end
